theory Spec2Isabelle
  imports Complex_Main
begin

section \<open>Strings and numbers of the platform\<close>

text \<open>
  A JavaScript string is modelled by the bytes of its UTF-8 encoding (\<^typ>\<open>string\<close>), the
  form in which request bodies arrive. \<open>String.prototype.trim\<close> removes the code points
  of the ECMAScript classes WhiteSpace and LineTerminator from both ends; \<open>whitespace\<close>
  lists their encodings.
\<close>

definition whitespace :: "string list" where
  "whitespace =
     [[CHR 0x09], [CHR 0x0A], [CHR 0x0B], [CHR 0x0C], [CHR 0x0D], [CHR 0x20],
      [CHR 0xC2, CHR 0xA0],
      [CHR 0xE1, CHR 0x9A, CHR 0x80],
      [CHR 0xE2, CHR 0x80, CHR 0x80], [CHR 0xE2, CHR 0x80, CHR 0x81],
      [CHR 0xE2, CHR 0x80, CHR 0x82], [CHR 0xE2, CHR 0x80, CHR 0x83],
      [CHR 0xE2, CHR 0x80, CHR 0x84], [CHR 0xE2, CHR 0x80, CHR 0x85],
      [CHR 0xE2, CHR 0x80, CHR 0x86], [CHR 0xE2, CHR 0x80, CHR 0x87],
      [CHR 0xE2, CHR 0x80, CHR 0x88], [CHR 0xE2, CHR 0x80, CHR 0x89],
      [CHR 0xE2, CHR 0x80, CHR 0x8A],
      [CHR 0xE2, CHR 0x80, CHR 0xA8], [CHR 0xE2, CHR 0x80, CHR 0xA9],
      [CHR 0xE2, CHR 0x80, CHR 0xAF],
      [CHR 0xE2, CHR 0x81, CHR 0x9F],
      [CHR 0xE3, CHR 0x80, CHR 0x80],
      [CHR 0xEF, CHR 0xBB, CHR 0xBF]]"

text \<open>The number of bytes of the white space code point \<open>s\<close> starts with (0: none).\<close>

definition ws_prefix :: "string \<Rightarrow> nat" where
  "ws_prefix s =
     (case find (\<lambda>w. take (length w) s = w) whitespace of
        None \<Rightarrow> 0
      | Some w \<Rightarrow> length w)"

text \<open>The same for the code point \<open>s\<close> ends with.\<close>

definition ws_suffix :: "string \<Rightarrow> nat" where
  "ws_suffix s =
     (case find (\<lambda>w. length w \<le> length s \<and> drop (length s - length w) s = w) whitespace of
        None \<Rightarrow> 0
      | Some w \<Rightarrow> length w)"

lemma ws_prefix_le: "ws_prefix s \<le> length s"
proof (cases "find (\<lambda>w. take (length w) s = w) whitespace")
  case None
  then show ?thesis by (simp add: ws_prefix_def)
next
  case (Some w)
  then have "take (length w) s = w" by (auto simp: find_Some_iff)
  then have "length (take (length w) s) = length w" by simp
  then have "length w \<le> length s" by simp
  with Some show ?thesis by (simp add: ws_prefix_def)
qed

lemma ws_suffix_le: "ws_suffix s \<le> length s"
  by (auto simp: ws_suffix_def find_Some_iff split: option.splits)

function trimStart :: "string \<Rightarrow> string" where
  "trimStart s = (if ws_prefix s = 0 then s else trimStart (drop (ws_prefix s) s))"
  by pat_completeness auto
termination
proof (relation "measure length")
  show "wf (measure length)" by simp
next
  fix s :: string
  assume "ws_prefix s \<noteq> 0"
  moreover have "ws_prefix s \<le> length s" by (rule ws_prefix_le)
  ultimately show "(drop (ws_prefix s) s, s) \<in> measure length" by simp
qed

function trimEnd :: "string \<Rightarrow> string" where
  "trimEnd s = (if ws_suffix s = 0 then s else trimEnd (take (length s - ws_suffix s) s))"
  by pat_completeness auto
termination
proof (relation "measure length")
  show "wf (measure length)" by simp
next
  fix s :: string
  assume "ws_suffix s \<noteq> 0"
  moreover have "ws_suffix s \<le> length s" by (rule ws_suffix_le)
  ultimately show "(take (length s - ws_suffix s) s, s) \<in> measure length" by simp
qed

declare trimStart.simps [simp del]
declare trimEnd.simps [simp del]

definition trim :: "string \<Rightarrow> string" where
  "trim s = trimEnd (trimStart s)"

text \<open>\<open>Array.prototype.join\<close> on an array of strings.\<close>

fun join :: "string \<Rightarrow> string list \<Rightarrow> string" where
  "join sep [] = []"
| "join sep [x] = x"
| "join sep (x # y # ys) = x @ sep @ join sep (y # ys)"

text \<open>
  The amounts of the profile are JavaScript numbers; the model holds the whole ones
  (\<^typ>\<open>int\<close>), which a template literal renders in decimal, with a minus sign when
  negative. Fractions, \<open>NaN\<close> and magnitudes the platform prints with an exponent are
  outside the model.
\<close>

function digits :: "nat \<Rightarrow> string" where
  "digits n = (if n < 10 then [''0123456789'' ! n] else digits (n div 10) @ [''0123456789'' ! (n mod 10)])"
  by pat_completeness auto
termination
  by (relation "measure id") auto

declare digits.simps [simp del]

definition toString :: "int \<Rightarrow> string" where
  "toString i = (if i < 0 then ''-'' @ digits (nat (- i)) else digits (nat i))"

text \<open>\<open>Array.prototype.slice\<close> with a negative start: the last \<open>n\<close> elements.\<close>

definition slice_last :: "nat \<Rightarrow> 'a list \<Rightarrow> 'a list" where
  "slice_last n xs = drop (length xs - n) xs"

section \<open>Data model (src/UserSession.ts)\<close>

text \<open>
  A timestamp is the instant a \<open>Date\<close> holds, in milliseconds since the epoch;
  \<open>toISOString\<close> prints it in a fixed-width form whose order is the order of the instants.
\<close>

type_synonym timestamp = nat

datatype role = System | User | Assistant

record ChatMessage =
  role :: role
  content :: string
  timestamp :: timestamp

text \<open>Every field of the interface is optional: \<open>None\<close> is a key the object does not have.\<close>

record FinancialProfile =
  monthlyIncome :: "int option"
  totalDebt :: "int option"
  savingsGoal :: "int option"
  emergencyFund :: "int option"
  financialGoals :: "string list option"
  lastUpdated :: "timestamp option"

definition empty_profile :: FinancialProfile where
  "empty_profile =
     \<lparr>monthlyIncome = None, totalDebt = None, savingsGoal = None, emergencyFund = None,
      financialGoals = None, lastUpdated = None\<rparr>"

text \<open>\<open>Object.keys(profile).length\<close>\<close>

definition keys_length :: "FinancialProfile \<Rightarrow> nat" where
  "keys_length p =
     (if monthlyIncome p = None then 0 else 1) + (if totalDebt p = None then 0 else 1) +
     (if savingsGoal p = None then 0 else 1) + (if emergencyFund p = None then 0 else 1) +
     (if financialGoals p = None then 0 else 1) + (if lastUpdated p = None then 0 else 1)"

text \<open>
  The object spread \<open>{...p, ...u}\<close>: a key of \<open>u\<close> overwrites the same key of \<open>p\<close>, every
  other key of \<open>p\<close> stays.
\<close>

definition over :: "'a option \<Rightarrow> 'a option \<Rightarrow> 'a option" where
  "over old new = (case new of None \<Rightarrow> old | Some v \<Rightarrow> Some v)"

definition spread :: "FinancialProfile \<Rightarrow> FinancialProfile \<Rightarrow> FinancialProfile" where
  "spread p u =
     \<lparr>monthlyIncome = over (monthlyIncome p) (monthlyIncome u),
      totalDebt = over (totalDebt p) (totalDebt u),
      savingsGoal = over (savingsGoal p) (savingsGoal u),
      emergencyFund = over (emergencyFund p) (emergencyFund u),
      financialGoals = over (financialGoals p) (financialGoals u),
      lastUpdated = over (lastUpdated p) (lastUpdated u)\<rparr>"

text \<open>
  The Durable Object's storage holds the two keys \<open>chatHistory\<close> and \<open>financialProfile\<close>;
  \<open>None\<close> is a key never written (\<open>get\<close> returns \<open>undefined\<close>). Reads and writes of
  the storage are taken to succeed.
\<close>

record storage =
  stored_chatHistory :: "ChatMessage list option"
  stored_financialProfile :: "FinancialProfile option"

text \<open>
  The text generation call \<open>env.AI.run(model, {messages, max_tokens, temperature})\<close> is an
  external collaborator: its argument is \<open>ai_input\<close>; it rejects (\<open>Throws\<close>), or resolves to
  an object without the key \<open>response\<close> (\<open>NoResponseKey\<close>), or to one with it, the value
  being a string or \<open>undefined\<close>.
\<close>

record ai_input =
  model :: string
  messages :: "(role \<times> string) list"
  max_tokens :: nat
  temperature :: rat

datatype ai_output = Throws | NoResponseKey | Response "string option"

text \<open>
  What handling one request reads from outside the object: the text generation binding and
  the clock, \<open>clock e k\<close> being the value of the \<open>k\<close>-th \<open>new Date().toISOString()\<close>
  evaluated while the request is handled (counted from 0).
\<close>

record env =
  AI_run :: "ai_input \<Rightarrow> ai_output"
  clock :: "nat \<Rightarrow> timestamp"

text \<open>The calls the object makes on its collaborators, in order.\<close>

datatype call = Get string | Put string | Run ai_input

text \<open>
  The object: its three private fields, \<open>ctx.storage\<close>, and the log of the calls made
  since the constructor ran (the log is not a field of the class; it records the
  object's effects).
\<close>

record UserSession =
  chatHistory :: "ChatMessage list"
  financialProfile :: FinancialProfile
  initialized :: bool
  storage :: storage
  calls :: "call list"

text \<open>
  A request: method (\<open>http_method\<close>), path, and the JSON body as the handlers read it.
  \<open>NoJson\<close> is a body \<open>request.json()\<close> rejects; \<open>Message m\<close> an object whose only key the handlers read is
  \<open>message\<close> (absent when \<open>m = None\<close>), \<open>Briefing\<close> the same for the key \<open>briefing\<close>;
  \<open>Profile u\<close> an object holding the keys of \<open>u\<close>. Keys no handler and no interface
  names are not modelled.
\<close>

datatype body = NoJson | Message "string option" | Profile FinancialProfile | Briefing "string option"

record request =
  http_method :: string
  path :: string
  body :: body

datatype payload =
    Error string
  | Reply string timestamp
  | History "ChatMessage list"
  | ProfileSaved FinancialProfile
  | ProfileOnly FinancialProfile
  | Success string
  | Ok
  | Text string

record response =
  status :: nat
  payload :: payload

datatype exn = JsonRejected | AiRejected

section \<open>The Durable Object (src/UserSession.ts)\<close>

definition SYSTEM_PROMPT :: string where
  "SYSTEM_PROMPT =
     ''You are FinSight, a friendly and knowledgeable financial literacy coach designed specifically for students. Your role is to:'' @
     ''\<newline>\<newline>1. Help students understand personal finance concepts in simple terms'' @
     ''\<newline>2. Provide actionable advice tailored to a student'' @ [CHR 0x27] @ ''s limited budget'' @
     ''\<newline>3. Encourage healthy financial habits like budgeting, saving, and avoiding unnecessary debt'' @
     ''\<newline>4. Explain complex topics like credit scores, student loans, and compound interest'' @
     ''\<newline>5. Be supportive and non-judgmental about financial mistakes'' @
     ''\<newline>\<newline>Always be encouraging, use relatable examples, and break down complex concepts. Remember that students often have limited income and are just starting their financial journey.'' @
     ''\<newline>\<newline>When the user shares financial information, acknowledge it and provide relevant advice. Keep responses concise but helpful.''"

text \<open>The constructor: the field initialisers, over the storage the platform hands in.\<close>

definition constructor :: "storage \<Rightarrow> UserSession" where
  "constructor st =
     \<lparr>chatHistory = [], financialProfile = empty_profile, initialized = False,
      storage = st, calls = []\<rparr>"

definition initialize :: "UserSession \<Rightarrow> UserSession" where
  "initialize s =
     (if initialized s then s
      else s\<lparr>chatHistory := (case stored_chatHistory (storage s) of None \<Rightarrow> [] | Some h \<Rightarrow> h),
             financialProfile :=
               (case stored_financialProfile (storage s) of None \<Rightarrow> empty_profile | Some p \<Rightarrow> p),
             initialized := True,
             calls := calls s @ [Get ''chatHistory'', Get ''financialProfile'']\<rparr>)"

definition saveState :: "UserSession \<Rightarrow> UserSession" where
  "saveState s =
     s\<lparr>storage := \<lparr>stored_chatHistory = Some (chatHistory s),
                    stored_financialProfile = Some (financialProfile s)\<rparr>,
       calls := calls s @ [Put ''chatHistory'', Put ''financialProfile'']\<rparr>"

text \<open>One line of the profile summary for an amount: \<open>v ? `$${v}` : 'Not set'\<close>.\<close>

definition amount :: "int option \<Rightarrow> string" where
  "amount v = (case v of None \<Rightarrow> ''Not set'' | Some n \<Rightarrow> if n = 0 then ''Not set'' else ''$'' @ toString n)"

text \<open>\<open>goals?.join(', ') || 'Not set'\<close>\<close>

definition goals :: "string list option \<Rightarrow> string" where
  "goals g =
     (case g of
        None \<Rightarrow> ''Not set''
      | Some gs \<Rightarrow> if join '', '' gs = [] then ''Not set'' else join '', '' gs)"

definition profile_summary :: "FinancialProfile \<Rightarrow> string" where
  "profile_summary p =
     ''\<newline>\<newline>User'' @ [CHR 0x27] @ ''s Financial Profile:'' @
     ''\<newline>- Monthly Income: '' @ amount (monthlyIncome p) @
     ''\<newline>- Total Debt: '' @ amount (totalDebt p) @
     ''\<newline>- Savings Goal: '' @ amount (savingsGoal p) @
     ''\<newline>- Emergency Fund: '' @ amount (emergencyFund p) @
     ''\<newline>- Financial Goals: '' @ goals (financialGoals p)"

definition contextualSystemPrompt :: "FinancialProfile \<Rightarrow> string" where
  "contextualSystemPrompt p =
     (if keys_length p > 0 then SYSTEM_PROMPT @ profile_summary p else SYSTEM_PROMPT)"

text \<open>The argument of \<open>AI.run\<close> that \<open>handleChat\<close> builds from the object's state.\<close>

definition chat_input :: "UserSession \<Rightarrow> ai_input" where
  "chat_input s =
     \<lparr>model = ''@cf/meta/llama-3.3-70b-instruct-fp8-fast'',
      messages =
        (System, contextualSystemPrompt (financialProfile s)) #
        map (\<lambda>msg. (role msg, content msg)) (slice_last 20 (chatHistory s)),
      max_tokens = 1024,
      temperature = 7 / 10\<rparr>"

text \<open>
  A handler returns the response or the exception it throws, and the object as it
  leaves it: what a handler has assigned before it throws stays assigned.
\<close>

definition handleChat :: "env \<Rightarrow> request \<Rightarrow> UserSession \<Rightarrow> (exn + response) \<times> UserSession" where
  "handleChat e req s =
     (case body req of
        NoJson \<Rightarrow> (Inl JsonRejected, s)
      | b \<Rightarrow>
          (let userMessage = (case b of Message (Some m) \<Rightarrow> trim m | _ \<Rightarrow> []) in
           if userMessage = [] then
             (Inr \<lparr>status = 400, payload = Error ''Message is required''\<rparr>, s)
           else
             (let s1 = s\<lparr>chatHistory := chatHistory s @
                          [\<lparr>role = User, content = userMessage, timestamp = clock e 0\<rparr>]\<rparr>;
                  s2 = s1\<lparr>calls := calls s1 @ [Run (chat_input s1)]\<rparr>
              in case AI_run e (chat_input s1) of
                   Throws \<Rightarrow> (Inl AiRejected, s2)
                 | aiResponse \<Rightarrow>
                     (let assistantContent =
                            (case aiResponse of
                               Response r \<Rightarrow> r
                             | _ \<Rightarrow> Some ''I apologize, but I encountered an issue generating a response. Please try again.'');
                          assistantMessage =
                            \<lparr>role = Assistant,
                             content = (case assistantContent of
                                          None \<Rightarrow> ''No response generated''
                                        | Some c \<Rightarrow> if c = [] then ''No response generated'' else c),
                             timestamp = clock e 1\<rparr>;
                          s3 = saveState (s2\<lparr>chatHistory := chatHistory s2 @ [assistantMessage]\<rparr>)
                      in (Inr \<lparr>status = 200,
                               payload = Reply (content assistantMessage) (timestamp assistantMessage)\<rparr>,
                          s3)))))"

definition getHistory :: "UserSession \<Rightarrow> (exn + response) \<times> UserSession" where
  "getHistory s = (Inr \<lparr>status = 200, payload = History (chatHistory s)\<rparr>, s)"

definition updateProfile :: "env \<Rightarrow> request \<Rightarrow> UserSession \<Rightarrow> (exn + response) \<times> UserSession" where
  "updateProfile e req s =
     (case body req of
        NoJson \<Rightarrow> (Inl JsonRejected, s)
      | b \<Rightarrow>
          (let updates = (case b of Profile u \<Rightarrow> u | _ \<Rightarrow> empty_profile);
               s1 = saveState
                      (s\<lparr>financialProfile :=
                           (spread (financialProfile s) updates)\<lparr>lastUpdated := Some (clock e 0)\<rparr>\<rparr>)
           in (Inr \<lparr>status = 200, payload = ProfileSaved (financialProfile s1)\<rparr>, s1)))"

definition getProfile :: "UserSession \<Rightarrow> (exn + response) \<times> UserSession" where
  "getProfile s = (Inr \<lparr>status = 200, payload = ProfileOnly (financialProfile s)\<rparr>, s)"

text \<open>The marker is the bar chart emoji (U+1F4CA) and the bold title.\<close>

definition briefing_marker :: string where
  "briefing_marker =
     [CHR 0xF0, CHR 0x9F, CHR 0x93, CHR 0x8A] @ '' **Daily Financial Briefing**\<newline>\<newline>''"

definition injectBriefing :: "env \<Rightarrow> request \<Rightarrow> UserSession \<Rightarrow> (exn + response) \<times> UserSession" where
  "injectBriefing e req s =
     (case body req of
        NoJson \<Rightarrow> (Inl JsonRejected, s)
      | b \<Rightarrow>
          (let briefingContent = (case b of Briefing (Some t) \<Rightarrow> t | _ \<Rightarrow> []) in
           if briefingContent = [] then
             (Inr \<lparr>status = 400, payload = Error ''Briefing content is required''\<rparr>, s)
           else
             (let briefingMessage =
                    \<lparr>role = Assistant, content = briefing_marker @ briefingContent,
                     timestamp = clock e 0\<rparr>;
                  s1 = saveState (s\<lparr>chatHistory := chatHistory s @ [briefingMessage]\<rparr>)
              in (Inr \<lparr>status = 200, payload = Success ''Briefing injected successfully''\<rparr>, s1))))"

definition clearHistory :: "UserSession \<Rightarrow> (exn + response) \<times> UserSession" where
  "clearHistory s =
     (let s1 = saveState (s\<lparr>chatHistory := []\<rparr>)
      in (Inr \<lparr>status = 200, payload = Success ''History cleared''\<rparr>, s1))"

definition fetch :: "env \<Rightarrow> UserSession \<Rightarrow> request \<Rightarrow> response \<times> UserSession" where
  "fetch e s0 req =
     (let s = initialize s0;
          (r, s') =
            (if http_method req = ''POST'' \<and> path req = ''/chat'' then handleChat e req s
             else if http_method req = ''GET'' \<and> path req = ''/history'' then getHistory s
             else if http_method req = ''POST'' \<and> path req = ''/profile'' then updateProfile e req s
             else if http_method req = ''GET'' \<and> path req = ''/profile'' then getProfile s
             else if http_method req = ''POST'' \<and> path req = ''/inject-briefing'' then injectBriefing e req s
             else if http_method req = ''POST'' \<and> path req = ''/clear'' then clearHistory s
             else (Inr \<lparr>status = 404, payload = Text ''Not Found''\<rparr>, s))
      in case r of
           Inr resp \<Rightarrow> (resp, s')
         | Inl err \<Rightarrow> (\<lparr>status = 500, payload = Error ''Internal server error''\<rparr>, s'))"

text \<open>The requests src/index.ts forwards to the object, one per operation.\<close>

definition sendMessage :: "string \<Rightarrow> request" where
  "sendMessage text = \<lparr>http_method = ''POST'', path = ''/chat'', body = Message (Some text)\<rparr>"

definition getHistory_request :: request where
  "getHistory_request = \<lparr>http_method = ''GET'', path = ''/history'', body = NoJson\<rparr>"

definition updateProfile_request :: "FinancialProfile \<Rightarrow> request" where
  "updateProfile_request u = \<lparr>http_method = ''POST'', path = ''/profile'', body = Profile u\<rparr>"

definition getProfile_request :: request where
  "getProfile_request = \<lparr>http_method = ''GET'', path = ''/profile'', body = NoJson\<rparr>"

definition injectBriefing_request :: "string \<Rightarrow> request" where
  "injectBriefing_request text =
     \<lparr>http_method = ''POST'', path = ''/inject-briefing'', body = Briefing (Some text)\<rparr>"

definition clear :: request where
  "clear = \<lparr>http_method = ''POST'', path = ''/clear'', body = NoJson\<rparr>"

text \<open>Requests handled one after the other by one object, each with its own environment.\<close>

fun serve :: "UserSession \<Rightarrow> (env \<times> request) list \<Rightarrow> UserSession" where
  "serve s [] = s"
| "serve s ((e, req) # rest) = serve (snd (fetch e s req)) rest"

section \<open>The second Durable Object (backend/src/objects/UserSession.ts)\<close>

text \<open>
  This class keeps the history only, under the storage key \<open>history\<close>, and has no
  \<open>try\<close>: an exception leaves \<open>fetch\<close>. A request is given by the route it takes and the
  field of the JSON body the route destructures (\<open>message\<close>, \<open>text\<close>), taken as a string.
\<close>

record UserSession_backend =
  history :: "ChatMessage list"
  state_storage :: "ChatMessage list option"
  calls_backend :: "call list"

datatype request_backend = PostChat string | GetHistory | PostInjectBriefing string | Unrouted

definition constructor_backend :: "ChatMessage list option \<Rightarrow> UserSession_backend" where
  "constructor_backend st = \<lparr>history = [], state_storage = st, calls_backend = []\<rparr>"

text \<open>
  backend/src/utils/llm.ts; the callers pass the defaults 512 and 0.7 themselves. The
  argument handed to \<open>AI.run\<close> is returned with the result, for the log of calls.
\<close>

definition runLLM :: "env \<Rightarrow> (role \<times> string) list \<Rightarrow> nat \<Rightarrow> rat \<Rightarrow> ai_input \<times> ai_output" where
  "runLLM e msgs max_tok temp =
     (let arg = \<lparr>model = ''@cf/meta/llama-3.3-70b-instruct-fp8-fast'', messages = msgs,
                 max_tokens = max_tok, temperature = temp\<rparr>
      in (arg, AI_run e arg))"

text \<open>\<open>resp.response || fallback\<close>\<close>

definition response_or :: "ai_output \<Rightarrow> string \<Rightarrow> string" where
  "response_or out fallback =
     (case out of Response (Some r) \<Rightarrow> if r = [] then fallback else r | _ \<Rightarrow> fallback)"

definition initialize_backend :: "UserSession_backend \<Rightarrow> UserSession_backend" where
  "initialize_backend s =
     (if history s = [] then
        s\<lparr>history := (case state_storage s of None \<Rightarrow> [] | Some h \<Rightarrow> h),
          calls_backend := calls_backend s @ [Get ''history'']\<rparr>
      else s)"

definition put_history :: "UserSession_backend \<Rightarrow> UserSession_backend" where
  "put_history s =
     s\<lparr>state_storage := Some (history s), calls_backend := calls_backend s @ [Put ''history'']\<rparr>"

definition morning_marker :: string where
  "morning_marker = [CHR 0xF0, CHR 0x9F, CHR 0x93, CHR 0x8A] @ '' Morning Briefing: ''"

definition fetch_backend ::
  "env \<Rightarrow> UserSession_backend \<Rightarrow> request_backend \<Rightarrow> (exn + response) \<times> UserSession_backend" where
  "fetch_backend e s0 req =
     (let s = initialize_backend s0 in
      case req of
        PostChat message \<Rightarrow>
          (let s1 = s\<lparr>history := history s @
                       [\<lparr>role = User, content = message, timestamp = clock e 0\<rparr>]\<rparr>;
               systemPrompt = ''You are a financial coach for students. Give clear, actionable, and encouraging advice.'';
               (arg, aiResp) =
                 runLLM e ((System, systemPrompt) #
                           map (\<lambda>msg. (role msg, content msg)) (slice_last 20 (history s1)))
                        512 (7 / 10);
               s2 = s1\<lparr>calls_backend := calls_backend s1 @ [Run arg]\<rparr>
           in case aiResp of
                Throws \<Rightarrow> (Inl AiRejected, s2)
              | _ \<Rightarrow>
                  (let assistantMsg =
                         \<lparr>role = Assistant,
                          content = response_or aiResp ''Sorry, I could not generate a response.'',
                          timestamp = clock e 1\<rparr>;
                       s3 = put_history (s2\<lparr>history := history s2 @ [assistantMsg]\<rparr>)
                   in (Inr \<lparr>status = 200,
                            payload = Reply (content assistantMsg) (timestamp assistantMsg)\<rparr>, s3)))
      | GetHistory \<Rightarrow> (Inr \<lparr>status = 200, payload = History (history s)\<rparr>, s)
      | PostInjectBriefing text \<Rightarrow>
          (let briefingMsg =
                 \<lparr>role = Assistant, content = morning_marker @ text, timestamp = clock e 0\<rparr>;
               s1 = put_history (s\<lparr>history := history s @ [briefingMsg]\<rparr>)
           in (Inr \<lparr>status = 200, payload = Ok\<rparr>, s1))
      | Unrouted \<Rightarrow> (Inr \<lparr>status = 404, payload = Text ''Not found''\<rparr>, s))"

section \<open>The workflow (backend/src/workflows/BriefingWorkflow.ts)\<close>

text \<open>
  \<open>step.do(name, body)\<close> is the platform's: it runs \<open>body\<close>, and may run it again when it
  threw or when the run is resumed. The three bodies are modelled one by one; \<open>run\<close> is
  the pass in which each body runs once and an exception ends the pass.
\<close>

record WorkflowEvent =
  instanceId :: string
  userId :: string

definition fetch_news :: "string list" where
  "fetch_news =
     [''Interest rates dropped by 0.25%'',
      ''Student loan forgiveness program expanded'',
      ''Part-time job market is growing'']"

definition analyze_news :: "env \<Rightarrow> string list \<Rightarrow> exn + string" where
  "analyze_news e news =
     (let prompt = ''Today'' @ [CHR 0x27] @ ''s news: '' @ join ''; '' news @
                   ''. Summarize what this means for a college student and give 2 actionable tips.'';
          (arg, resp) =
            runLLM e [(System, ''You are a financial coach for students.''), (User, prompt)]
                   256 (7 / 10)
      in case resp of
           Throws \<Rightarrow> Inl AiRejected
         | _ \<Rightarrow> Inr (response_or resp ''No summary generated.''))"

text \<open>The request the third step sends to the object named \<open>default-user\<close>.\<close>

definition inject_briefing_request :: "WorkflowEvent \<Rightarrow> string \<Rightarrow> request_backend" where
  "inject_briefing_request event summary = PostInjectBriefing summary"

definition inject_briefing ::
  "env \<Rightarrow> WorkflowEvent \<Rightarrow> string \<Rightarrow> UserSession_backend \<Rightarrow> (exn + bool) \<times> UserSession_backend" where
  "inject_briefing e event summary session =
     (case fetch_backend e session (inject_briefing_request event summary) of
        (Inl err, session') \<Rightarrow> (Inl err, session')
      | (Inr resp, session') \<Rightarrow> (Inr True, session'))"

definition run ::
  "env \<Rightarrow> WorkflowEvent \<Rightarrow> UserSession_backend \<Rightarrow> (exn + string) \<times> UserSession_backend" where
  "run e event session =
     (let news = fetch_news in
      case analyze_news e news of
        Inl err \<Rightarrow> (Inl err, session)
      | Inr summary \<Rightarrow>
          (case inject_briefing e event summary session of
             (Inl err, session') \<Rightarrow> (Inl err, session')
           | (Inr done, session') \<Rightarrow> (Inr ''Briefing complete'', session')))"

section \<open>The status route (src/index.ts)\<close>

text \<open>
  The workflow binding is the platform's: \<open>get(id)\<close> rejects for an id it does not know
  (\<open>None\<close>) and otherwise resolves to an instance, whose \<open>status()\<close> rejects (\<open>None\<close>) or
  resolves to the three fields the route reads.
\<close>

record InstanceStatus =
  instance_status :: string
  instance_output :: "string option"
  instance_error :: "string option"

type_synonym binding = "string \<Rightarrow> InstanceStatus option option"

datatype status_payload =
    StatusOf string string "string option" "string option"
  | Failure string

definition workflow_status :: "binding \<Rightarrow> string \<Rightarrow> nat \<times> status_payload" where
  "workflow_status BRIEFING_WORKFLOW_get instance_id =
     (case BRIEFING_WORKFLOW_get instance_id of
        None \<Rightarrow> (500, Failure ''Failed to get workflow status'')
      | Some instance \<Rightarrow>
          (case instance of
             None \<Rightarrow> (500, Failure ''Failed to get workflow status'')
           | Some st \<Rightarrow> (200, StatusOf instance_id (instance_status st) (instance_output st) (instance_error st))))"

section \<open>The spec's wording, and sample inputs\<close>

text \<open>
  The context window in the words of the specification: the \<open>n\<close> most recent entries of
  the history, oldest first.
\<close>

definition most_recent :: "nat \<Rightarrow> 'a list \<Rightarrow> 'a list" where
  "most_recent n xs = rev (take n (rev xs))"

text \<open>An invoker that rejects every call, under a clock that stands still.\<close>

definition quiet :: env where
  "quiet = \<lparr>AI_run = (\<lambda>i. Throws), clock = (\<lambda>k. 0)\<rparr>"

text \<open>An invoker that answers, under a clock that reads the same instant twice.\<close>

definition replying :: env where
  "replying = \<lparr>AI_run = (\<lambda>i. Response (Some ''ok'')), clock = (\<lambda>k. 5)\<rparr>"

text \<open>An invoker that answers, under a clock that advances between two readings.\<close>

definition ticking :: env where
  "ticking = \<lparr>AI_run = (\<lambda>i. Response (Some ''Start with a list.'')), clock = (\<lambda>k. 1000 + k)\<rparr>"

definition nothing_stored :: storage where
  "nothing_stored = \<lparr>stored_chatHistory = None, stored_financialProfile = None\<rparr>"

definition W1 :: WorkflowEvent where
  "W1 = \<lparr>instanceId = ''W1'', userId = ''default-user''\<rparr>"

text \<open>A binding that knows the instance \<open>W1\<close>, completed, and no other.\<close>

definition one_instance :: binding where
  "one_instance =
     (\<lambda>i. if i = ''W1''
          then Some (Some \<lparr>instance_status = ''complete'',
                            instance_output = Some ''Briefing complete'',
                            instance_error = None\<rparr>)
          else None)"

text \<open>A binding that knows the instance \<open>W1\<close>, whose \<open>status()\<close> rejects, and no other.\<close>

definition unreadable_instance :: binding where
  "unreadable_instance = (\<lambda>i. if i = ''W1'' then Some None else None)"

section \<open>Evaluation and basic facts\<close>

lemmas handlers =
  fetch_def handleChat_def getHistory_def updateProfile_def getProfile_def
  injectBriefing_def clearHistory_def saveState_def Let_def

lemmas requests =
  sendMessage_def getHistory_request_def updateProfile_request_def getProfile_request_def
  injectBriefing_request_def clear_def

lemmas samples =
  quiet_def replying_def ticking_def nothing_stored_def W1_def constructor_def
  constructor_backend_def initialize_def empty_profile_def

lemmas trims = trim_def trimStart.simps trimEnd.simps ws_prefix_def ws_suffix_def whitespace_def

lemma trim_sample: "trim ''  hi '' = ''hi''"
  by (simp add: trims)

lemma trim_blank: "trim ''   '' = []"
  by (simp add: trims)

lemma toString_sample: "toString 1500 = ''1500''"
  by (simp add: toString_def digits.simps)

lemma summary_sample:
  "profile_summary (empty_profile\<lparr>totalDebt := Some 2000, financialGoals := Some [''save'', ''invest'']\<rparr>) =
     ''\<newline>\<newline>User'' @ [CHR 0x27] @ ''s Financial Profile:'' @
     ''\<newline>- Monthly Income: Not set\<newline>- Total Debt: $2000\<newline>- Savings Goal: Not set'' @
     ''\<newline>- Emergency Fund: Not set\<newline>- Financial Goals: save, invest''"
  by (simp add: profile_summary_def amount_def goals_def empty_profile_def toString_def digits.simps)

lemma initialize_initialized [simp]: "initialized s \<Longrightarrow> initialize s = s"
  by (simp add: initialize_def)

lemma initialized_initialize [simp]: "initialized (initialize s)"
  by (simp add: initialize_def)

lemma initialize_storage [simp]: "storage (initialize s) = storage s"
  by (simp add: initialize_def)

lemma fetch_initialized [simp]: "initialized (snd (fetch e s req))"
  by (simp add: handlers split: body.splits option.splits ai_output.splits)

text \<open>A cold start is not observable: the handlers run on the loaded state.\<close>

lemma fetch_initialize: "fetch e (initialize s) req = fetch e s req"
  by (simp add: fetch_def)

lemma slice_last_most_recent: "slice_last n xs = most_recent n xs"
  by (simp add: slice_last_def most_recent_def take_rev)

lemma keys_length_empty: "keys_length p = 0 \<longleftrightarrow> p = empty_profile"
  by (cases p) (auto simp: keys_length_def empty_profile_def)

lemma getHistory_warm:
  "initialized s \<Longrightarrow>
   fetch e s getHistory_request = (\<lparr>status = 200, payload = History (chatHistory s)\<rparr>, s)"
  by (simp add: fetch_def getHistory_request_def getHistory_def)

lemma getProfile_warm:
  "initialized s \<Longrightarrow>
   fetch e s getProfile_request = (\<lparr>status = 200, payload = ProfileOnly (financialProfile s)\<rparr>, s)"
  by (simp add: fetch_def getProfile_request_def getProfile_def)

lemma initialize_backend_nonempty: "history s \<noteq> [] \<Longrightarrow> initialize_backend s = s"
  by (simp add: initialize_backend_def)

section \<open>Briefings are appended on every call\<close>

lemma injectBriefing_history:
  "chatHistory (snd (fetch e s (injectBriefing_request t))) =
     (if t = [] then chatHistory (initialize s)
      else chatHistory (initialize s) @
             [\<lparr>role = Assistant, content = briefing_marker @ t, timestamp = clock e 0\<rparr>])"
  by (simp add: handlers requests)

lemma inject_briefing_history:
  "history (snd (inject_briefing e ev t b)) =
     history (initialize_backend b) @
       [\<lparr>role = Assistant, content = morning_marker @ t, timestamp = clock e 0\<rparr>]"
  by (simp add: inject_briefing_def inject_briefing_request_def fetch_backend_def put_history_def
        Let_def split: prod.splits sum.splits)

text \<open>
  A pass of the workflow whose invoker answers appends one briefing, the marker before
  the summary, and makes no use of the event: neither the instance id nor the user id
  reaches the object.
\<close>

lemma inject_briefing_ignores_event: "inject_briefing e ev t b = inject_briefing e ev' t b"
  by (simp add: inject_briefing_def inject_briefing_request_def)

lemma run_ignores_event: "run e ev b = run e ev' b"
  by (simp add: run_def inject_briefing_ignores_event [of e ev _ b ev'] split: sum.splits)

lemma run_appends_briefing:
  "analyze_news e fetch_news = Inr summary \<Longrightarrow>
   fst (run e ev b) = Inr ''Briefing complete'' \<and>
   history (snd (run e ev b)) =
     history (initialize_backend b) @
       [\<lparr>role = Assistant, content = morning_marker @ summary, timestamp = clock e 0\<rparr>]"
  by (simp add: run_def inject_briefing_history)
    (simp add: inject_briefing_def inject_briefing_request_def fetch_backend_def put_history_def
       Let_def)

text \<open>
  Claim C1, as the code has it. Neither \<open>injectBriefing\<close> nor the request the workflow's
  third step sends carries an idempotency key. Every call of \<open>injectBriefing\<close> with a
  non-empty text appends one briefing message to the history (an empty text is refused
  and appends nothing), so a second call with the same request appends a second message.
  The request of the workflow's third step holds the summary only, whatever the instance
  id, and running that step's body twice appends two messages to the object's history.
\<close>

theorem injectBriefing_appends_every_call:
  "chatHistory (snd (fetch e s (injectBriefing_request t))) =
     (if t = [] then chatHistory (initialize s)
      else chatHistory (initialize s) @
             [\<lparr>role = Assistant, content = briefing_marker @ t, timestamp = clock e 0\<rparr>])
   \<and> chatHistory (snd (fetch e' (snd (fetch e s (injectBriefing_request t)))
                             (injectBriefing_request t))) =
     (if t = [] then chatHistory (initialize s)
      else chatHistory (initialize s) @
             [\<lparr>role = Assistant, content = briefing_marker @ t, timestamp = clock e 0\<rparr>,
              \<lparr>role = Assistant, content = briefing_marker @ t, timestamp = clock e' 0\<rparr>])
   \<and> inject_briefing_request (ev\<lparr>instanceId := k\<rparr>) t = PostInjectBriefing t
   \<and> history (snd (inject_briefing e' ev t (snd (inject_briefing e ev t b)))) =
       history (initialize_backend b) @
         [\<lparr>role = Assistant, content = morning_marker @ t, timestamp = clock e 0\<rparr>,
          \<lparr>role = Assistant, content = morning_marker @ t, timestamp = clock e' 0\<rparr>]"
  by (simp add: injectBriefing_history inject_briefing_history initialize_backend_nonempty
        inject_briefing_request_def)

text \<open>
  Claim C1 as stated fails: on a new object, the first \<open>injectBriefing\<close> of the text
  \<open>X\<close> leaves one message in the history and the second, the same request again, leaves
  two; the same holds for the body of the workflow's third step run twice for the
  instance \<open>W1\<close>.
\<close>

theorem injectBriefing_twice_counterexample:
  "length (chatHistory (snd (fetch quiet (constructor nothing_stored)
             (injectBriefing_request ''X'')))) = 1
   \<and> length (chatHistory (snd (fetch quiet
             (snd (fetch quiet (constructor nothing_stored) (injectBriefing_request ''X'')))
             (injectBriefing_request ''X'')))) = 2
   \<and> length (history (snd (inject_briefing quiet W1 ''X''
             (snd (inject_briefing quiet W1 ''X'' (constructor_backend None)))))) = 2"
  by (simp add: injectBriefing_history inject_briefing_history initialize_backend_nonempty
        samples initialize_backend_def)

section \<open>Failed operations\<close>

text \<open>
  What a failed request (any status but 200) leaves behind in src/UserSession.ts: nothing
  is written to storage and the profile is as loaded; the history is as loaded too,
  except after a chat request answered with 500, which may leave one user message
  appended in memory.
\<close>

lemma failure_frame:
  "status (fst (fetch e s req)) \<noteq> 200 \<Longrightarrow>
   storage (snd (fetch e s req)) = storage s \<and>
   financialProfile (snd (fetch e s req)) = financialProfile (initialize s) \<and>
   (chatHistory (snd (fetch e s req)) = chatHistory (initialize s) \<or>
    (http_method req = ''POST'' \<and> path req = ''/chat'' \<and> status (fst (fetch e s req)) = 500 \<and>
     (\<exists>m. chatHistory (snd (fetch e s req)) = chatHistory (initialize s) @ [m] \<and> role m = User)))"
proof -
  have "status (fst (fetch e s req)) = 200 \<or>
     (storage (snd (fetch e s req)) = storage s \<and>
      financialProfile (snd (fetch e s req)) = financialProfile (initialize s) \<and>
      (chatHistory (snd (fetch e s req)) = chatHistory (initialize s) \<or>
       (http_method req = ''POST'' \<and> path req = ''/chat'' \<and>
        status (fst (fetch e s req)) = 500 \<and>
        (\<exists>m. chatHistory (snd (fetch e s req)) = chatHistory (initialize s) @ [m] \<and>
             role m = User))))"
    by (simp add: handlers split: body.splits option.splits ai_output.splits)
  then show "status (fst (fetch e s req)) \<noteq> 200 \<Longrightarrow> ?thesis"
    by blast
qed

text \<open>
  Claim C2 at the input where the code breaks it. A new object, nothing stored:
  \<open>getHistory\<close> returns the empty history. \<open>sendMessage("hi")\<close> while the invoker rejects
  is answered with status 500 and writes nothing, and the \<open>getHistory\<close> that follows
  returns the user message \<open>hi\<close>, pushed before the invoker was called and never taken
  back; a later \<open>updateProfile\<close> writes that message to storage with the rest of the
  state.
\<close>

theorem failed_sendMessage_leaves_user_message:
  "fst (fetch quiet (constructor nothing_stored) getHistory_request) =
     \<lparr>status = 200, payload = History []\<rparr>
   \<and> fst (fetch quiet (constructor nothing_stored) (sendMessage ''hi'')) =
     \<lparr>status = 500, payload = Error ''Internal server error''\<rparr>
   \<and> fst (fetch quiet (snd (fetch quiet (constructor nothing_stored) (sendMessage ''hi'')))
            getHistory_request) =
     \<lparr>status = 200, payload = History [\<lparr>role = User, content = ''hi'', timestamp = 0\<rparr>]\<rparr>
   \<and> stored_chatHistory (storage (snd (fetch quiet (constructor nothing_stored)
            (sendMessage ''hi'')))) = None
   \<and> stored_chatHistory (storage (snd (fetch quiet
            (snd (fetch quiet (constructor nothing_stored) (sendMessage ''hi''))) clear))) = Some []
   \<and> stored_chatHistory (storage (snd (fetch quiet
            (snd (fetch quiet (constructor nothing_stored) (sendMessage ''hi'')))
            (updateProfile_request empty_profile)))) =
     Some [\<lparr>role = User, content = ''hi'', timestamp = 0\<rparr>]"
  by (simp add: handlers requests samples trims)

section \<open>Loading the state\<close>

text \<open>
  src/UserSession.ts loads once: whatever requests an object serves after its
  constructor ran, its calls are none (no request yet) or begin with the two reads of
  the storage, and no later call is a read.
\<close>

lemma fetch_calls_warm:
  "initialized s \<Longrightarrow>
   \<exists>extra. calls (snd (fetch e s req)) = calls s @ extra \<and> (\<forall>k. Get k \<notin> set extra)"
  by (simp add: handlers split: body.splits option.splits ai_output.splits)

lemma serve_calls_warm:
  "initialized s \<Longrightarrow>
   \<exists>extra. calls (serve s reqs) = calls s @ extra \<and> (\<forall>k. Get k \<notin> set extra)"
proof (induction reqs arbitrary: s)
  case Nil
  then show ?case by simp
next
  case (Cons a reqs)
  obtain e req where a: "a = (e, req)" by (cases a)
  from fetch_calls_warm [OF Cons.prems, of e req]
  obtain x where x: "calls (snd (fetch e s req)) = calls s @ x" "\<forall>k. Get k \<notin> set x"
    by blast
  from Cons.IH [of "snd (fetch e s req)"]
  obtain y where y: "calls (serve (snd (fetch e s req)) reqs) = calls (snd (fetch e s req)) @ y"
    "\<forall>k. Get k \<notin> set y"
    by auto
  have "calls (serve s (a # reqs)) = calls s @ (x @ y)"
    using a x y by simp
  moreover have "\<forall>k. Get k \<notin> set (x @ y)"
    using x y by simp
  ultimately show ?case by blast
qed

lemma serve_initialize: "reqs \<noteq> [] \<Longrightarrow> serve (initialize s) reqs = serve s reqs"
  by (cases reqs) (auto simp: fetch_initialize)

lemma state_loaded_once:
  "calls (serve (constructor st) reqs) =
     (if reqs = [] then []
      else [Get ''chatHistory'', Get ''financialProfile''] @
           drop 2 (calls (serve (constructor st) reqs)))
   \<and> (\<forall>k. Get k \<notin> set (drop 2 (calls (serve (constructor st) reqs))))"
proof (cases "reqs = []")
  case True
  then show ?thesis by (simp add: constructor_def)
next
  case False
  from serve_calls_warm [of "initialize (constructor st)" reqs]
  obtain x where x: "calls (serve (initialize (constructor st)) reqs) =
      calls (initialize (constructor st)) @ x" "\<forall>k. Get k \<notin> set x"
    by auto
  have "calls (initialize (constructor st)) = [Get ''chatHistory'', Get ''financialProfile'']"
    by (simp add: initialize_def constructor_def)
  with x False show ?thesis
    by (simp add: serve_initialize)
qed

lemma nothing_stored_initializes_empty:
  "chatHistory (initialize (constructor nothing_stored)) = [] \<and>
   financialProfile (initialize (constructor nothing_stored)) = empty_profile"
  by (simp add: initialize_def constructor_def nothing_stored_def)

text \<open>
  Claim C3 at the input where the code breaks it. In
  backend/src/objects/UserSession.ts the guard of \<open>initialize\<close> is the emptiness of the
  history in memory, not a flag: a new object with nothing stored that serves
  \<open>getHistory\<close> twice reads the storage twice.
\<close>

theorem backend_loads_twice:
  "calls_backend (snd (fetch_backend quiet
       (snd (fetch_backend quiet (constructor_backend None) GetHistory)) GetHistory)) =
     [Get ''history'', Get ''history'']"
  by (simp add: fetch_backend_def initialize_backend_def samples)

section \<open>Validation of the message\<close>

text \<open>
  src/UserSession.ts refuses exactly the texts that are empty once trimmed, before it
  changes anything: the loaded history and profile stay, nothing is written and no
  collaborator is called. Any other text changes the history.
\<close>

lemma sendMessage_rejected:
  "trim t = [] \<Longrightarrow>
   fetch e s (sendMessage t) =
     (\<lparr>status = 400, payload = Error ''Message is required''\<rparr>, initialize s)"
  by (simp add: handlers requests)

lemma sendMessage_status:
  "status (fst (fetch e s (sendMessage t))) = 400 \<longleftrightarrow> trim t = []"
  by (simp add: handlers requests split: ai_output.splits)

lemma sendMessage_accepted:
  "trim t \<noteq> [] \<Longrightarrow> chatHistory (snd (fetch e s (sendMessage t))) \<noteq> chatHistory (initialize s)"
  by (simp add: handlers requests split: ai_output.splits)

text \<open>
  Claim C4 at the input where the code breaks it. The chat route of
  backend/src/objects/UserSession.ts has no validation: the text of three spaces, empty
  once trimmed, is answered with status 200, and the user message of three spaces and
  the reply are both written to storage.
\<close>

theorem backend_accepts_blank_message:
  "trim ''   '' = []
   \<and> fst (fetch_backend replying (constructor_backend None) (PostChat ''   '')) =
     Inr \<lparr>status = 200, payload = Reply ''ok'' 5\<rparr>
   \<and> state_storage (snd (fetch_backend replying (constructor_backend None) (PostChat ''   ''))) =
     Some [\<lparr>role = User, content = ''   '', timestamp = 5\<rparr>,
           \<lparr>role = Assistant, content = ''ok'', timestamp = 5\<rparr>]"
  by (simp add: fetch_backend_def initialize_backend_def samples trims runLLM_def response_or_def
        put_history_def Let_def)

section \<open>A first message\<close>

text \<open>
  Claim C5, as the code has it. On an object whose loaded history is empty, a
  \<open>sendMessage\<close> answered with status 200 leaves a history of exactly two messages: the
  user message, whose content is the given text trimmed and whose timestamp is the first
  reading of the clock, then an assistant message with non-empty content, whose timestamp
  is the second reading. The timestamps increase strictly exactly when the clock advanced
  between the two readings. A \<open>getHistory\<close> that follows returns the two messages in
  that order and leaves the object as it was.
\<close>

theorem first_sendMessage_history:
  assumes fresh: "chatHistory (initialize s) = []"
    and ok: "status (fst (fetch e s (sendMessage t))) = 200"
  shows "length (chatHistory (snd (fetch e s (sendMessage t)))) = 2
    \<and> role (chatHistory (snd (fetch e s (sendMessage t))) ! 0) = User
    \<and> content (chatHistory (snd (fetch e s (sendMessage t))) ! 0) = trim t
    \<and> timestamp (chatHistory (snd (fetch e s (sendMessage t))) ! 0) = clock e 0
    \<and> role (chatHistory (snd (fetch e s (sendMessage t))) ! 1) = Assistant
    \<and> content (chatHistory (snd (fetch e s (sendMessage t))) ! 1) \<noteq> []
    \<and> timestamp (chatHistory (snd (fetch e s (sendMessage t))) ! 1) = clock e 1
    \<and> (timestamp (chatHistory (snd (fetch e s (sendMessage t))) ! 0)
          < timestamp (chatHistory (snd (fetch e s (sendMessage t))) ! 1)
        \<longleftrightarrow> clock e 0 < clock e 1)
    \<and> fetch e' (snd (fetch e s (sendMessage t))) getHistory_request =
        (\<lparr>status = 200, payload = History (chatHistory (snd (fetch e s (sendMessage t))))\<rparr>,
         snd (fetch e s (sendMessage t)))"
proof -
  have nonempty: "trim t \<noteq> []"
    using ok by (auto simp: sendMessage_rejected)
  have get: "fetch e' (snd (fetch e s (sendMessage t))) getHistory_request =
        (\<lparr>status = 200, payload = History (chatHistory (snd (fetch e s (sendMessage t))))\<rparr>,
         snd (fetch e s (sendMessage t)))"
    by (simp add: getHistory_warm)
  show ?thesis
    using fresh ok nonempty unfolding get
    by (auto simp: handlers requests split: ai_output.splits option.splits)
qed

theorem first_sendMessage_history_witness:
  "chatHistory (initialize (constructor nothing_stored)) = []
   \<and> status (fst (fetch ticking (constructor nothing_stored) (sendMessage ''How do I budget?''))) = 200
   \<and> chatHistory (snd (fetch ticking (constructor nothing_stored) (sendMessage ''How do I budget?''))) =
       [\<lparr>role = User, content = ''How do I budget?'', timestamp = 1000\<rparr>,
        \<lparr>role = Assistant, content = ''Start with a list.'', timestamp = 1001\<rparr>]
   \<and> fst (fetch quiet (snd (fetch ticking (constructor nothing_stored)
                                  (sendMessage ''How do I budget?''))) getHistory_request) =
       \<lparr>status = 200, payload = History
          [\<lparr>role = User, content = ''How do I budget?'', timestamp = 1000\<rparr>,
           \<lparr>role = Assistant, content = ''Start with a list.'', timestamp = 1001\<rparr>]\<rparr>"
proof -
  have fresh: "chatHistory (initialize (constructor nothing_stored)) = []"
    by (simp add: samples)
  have ok: "status (fst (fetch ticking (constructor nothing_stored)
                          (sendMessage ''How do I budget?''))) = 200"
    by (simp add: handlers requests samples trims)
  have hist: "chatHistory (snd (fetch ticking (constructor nothing_stored)
                          (sendMessage ''How do I budget?''))) =
       [\<lparr>role = User, content = ''How do I budget?'', timestamp = 1000\<rparr>,
        \<lparr>role = Assistant, content = ''Start with a list.'', timestamp = 1001\<rparr>]"
    by (simp add: handlers requests samples trims)
  show ?thesis
    using first_sendMessage_history [OF fresh ok, of quiet] fresh ok hist by simp
qed

text \<open>
  Claim C5 as stated fails: on a new object, \<open>sendMessage\<close> of the text \<open>hi\<close> between
  blanks, under a clock that reads 5 both times, is answered with status 200; the
  content stored for the user is not the given text but \<open>hi\<close>, and the two timestamps
  are equal.
\<close>

theorem first_sendMessage_counterexample:
  "fst (fetch replying (constructor nothing_stored) (sendMessage ''  hi '')) =
     \<lparr>status = 200, payload = Reply ''ok'' 5\<rparr>
   \<and> chatHistory (snd (fetch replying (constructor nothing_stored) (sendMessage ''  hi ''))) =
     [\<lparr>role = User, content = ''hi'', timestamp = 5\<rparr>,
      \<lparr>role = Assistant, content = ''ok'', timestamp = 5\<rparr>]
   \<and> ''hi'' \<noteq> ''  hi ''
   \<and> \<not> (5 :: timestamp) < 5"
  by (simp add: handlers requests samples trims)

section \<open>The generation context\<close>

text \<open>
  Claim C6. Whatever the history and the profile, \<open>sendMessage\<close> with a text that is not
  empty once trimmed calls the invoker once, and the messages it passes are: one system
  instruction, which is the system prompt, followed by the summary of the profile when
  the profile is not the empty one; then the 20 most recent entries of the history,
  the user message just appended included, oldest first, each as its role and content.
  (A text that is empty once trimmed makes no call.)
\<close>

theorem sendMessage_generation_context:
  "(let p = financialProfile (initialize s);
        h = chatHistory (initialize s) @
              [\<lparr>role = User, content = trim t, timestamp = clock e 0\<rparr>];
        given =
          \<lparr>model = ''@cf/meta/llama-3.3-70b-instruct-fp8-fast'',
           messages =
             (System, if p = empty_profile then SYSTEM_PROMPT else SYSTEM_PROMPT @ profile_summary p) #
             map (\<lambda>m. (role m, content m)) (most_recent 20 h),
           max_tokens = 1024, temperature = 7 / 10\<rparr>
    in calls (snd (fetch e s (sendMessage t))) =
         (if trim t = [] then calls (initialize s)
          else calls (initialize s) @ Run given #
               (if AI_run e given = Throws then []
                else [Put ''chatHistory'', Put ''financialProfile''])))"
  by (simp add: handlers requests chat_input_def contextualSystemPrompt_def
        slice_last_most_recent keys_length_empty [symmetric] split: ai_output.splits)

text \<open>
  The chat route of backend/src/objects/UserSession.ts passes its own system prompt,
  never augmented (the class has no profile), and the same window of the history.
\<close>

lemma backend_generation_context:
  "(let h = history (initialize_backend s) @
              [\<lparr>role = User, content = t, timestamp = clock e 0\<rparr>];
        given =
          \<lparr>model = ''@cf/meta/llama-3.3-70b-instruct-fp8-fast'',
           messages =
             (System, ''You are a financial coach for students. Give clear, actionable, and encouraging advice.'') #
             map (\<lambda>m. (role m, content m)) (most_recent 20 h),
           max_tokens = 512, temperature = 7 / 10\<rparr>
    in calls_backend (snd (fetch_backend e s (PostChat t))) =
         calls_backend (initialize_backend s) @ Run given #
           (if AI_run e given = Throws then [] else [Put ''history'']))"
  by (simp add: fetch_backend_def runLLM_def put_history_def Let_def slice_last_most_recent
        split: ai_output.splits)

section \<open>The profile\<close>

text \<open>
  Claim C7. \<open>updateProfile\<close> merges the supplied fields into the loaded profile: a
  supplied field takes the supplied value, a field not supplied keeps its value;
  \<open>lastUpdated\<close> becomes the reading of the clock; the resulting profile is written to
  storage and is the profile of the response; the history is untouched. In particular,
  on the profile holding only \<open>totalDebt: 2000\<close>, the update \<open>{monthlyIncome: 1500}\<close>
  yields the profile holding \<open>totalDebt: 2000\<close>, \<open>monthlyIncome: 1500\<close> and \<open>lastUpdated\<close>.
\<close>

theorem updateProfile_merges:
  "monthlyIncome (financialProfile (snd (fetch e s (updateProfile_request u)))) =
     (case monthlyIncome u of None \<Rightarrow> monthlyIncome (financialProfile (initialize s)) | Some v \<Rightarrow> Some v)
   \<and> totalDebt (financialProfile (snd (fetch e s (updateProfile_request u)))) =
     (case totalDebt u of None \<Rightarrow> totalDebt (financialProfile (initialize s)) | Some v \<Rightarrow> Some v)
   \<and> savingsGoal (financialProfile (snd (fetch e s (updateProfile_request u)))) =
     (case savingsGoal u of None \<Rightarrow> savingsGoal (financialProfile (initialize s)) | Some v \<Rightarrow> Some v)
   \<and> emergencyFund (financialProfile (snd (fetch e s (updateProfile_request u)))) =
     (case emergencyFund u of None \<Rightarrow> emergencyFund (financialProfile (initialize s)) | Some v \<Rightarrow> Some v)
   \<and> financialGoals (financialProfile (snd (fetch e s (updateProfile_request u)))) =
     (case financialGoals u of None \<Rightarrow> financialGoals (financialProfile (initialize s)) | Some v \<Rightarrow> Some v)
   \<and> lastUpdated (financialProfile (snd (fetch e s (updateProfile_request u)))) = Some (clock e 0)
   \<and> stored_financialProfile (storage (snd (fetch e s (updateProfile_request u)))) =
       Some (financialProfile (snd (fetch e s (updateProfile_request u))))
   \<and> fst (fetch e s (updateProfile_request u)) =
       \<lparr>status = 200,
        payload = ProfileSaved (financialProfile (snd (fetch e s (updateProfile_request u))))\<rparr>
   \<and> chatHistory (snd (fetch e s (updateProfile_request u))) = chatHistory (initialize s)
   \<and> financialProfile (snd (fetch e
         (s\<lparr>initialized := True, financialProfile := empty_profile\<lparr>totalDebt := Some 2000\<rparr>\<rparr>)
         (updateProfile_request (empty_profile\<lparr>monthlyIncome := Some 1500\<rparr>)))) =
       \<lparr>monthlyIncome = Some 1500, totalDebt = Some 2000, savingsGoal = None,
        emergencyFund = None, financialGoals = None, lastUpdated = Some (clock e 0)\<rparr>"
  by (simp add: handlers requests spread_def over_def empty_profile_def)

section \<open>Clearing the history\<close>

text \<open>
  Claim C8. From every state, \<open>clear\<close> leaves a history of length 0, in memory and in
  storage, answers with the acknowledgement, and leaves the profile as it was loaded,
  every field of it, \<open>lastUpdated\<close> included: \<open>getProfile\<close> returns after the call what
  it returns before it.
\<close>

theorem clear_empties_history_only:
  "length (chatHistory (snd (fetch e s clear))) = 0
   \<and> fst (fetch e s clear) = \<lparr>status = 200, payload = Success ''History cleared''\<rparr>
   \<and> financialProfile (snd (fetch e s clear)) = financialProfile (initialize s)
   \<and> stored_chatHistory (storage (snd (fetch e s clear))) = Some []
   \<and> stored_financialProfile (storage (snd (fetch e s clear))) =
       Some (financialProfile (initialize s))
   \<and> fst (fetch e' (snd (fetch e s clear)) getProfile_request) =
       fst (fetch e'' s getProfile_request)
   \<and> fst (fetch e' (snd (fetch e s clear)) getHistory_request) =
       \<lparr>status = 200, payload = History []\<rparr>"
  by (simp add: handlers requests)

section \<open>The status of a workflow instance\<close>

text \<open>
  Claim C9, as the code has it. The status route answers with the one generic failure
  (status 500, \<open>Failed to get workflow status\<close>) when the binding does not know the
  instance id, and with the same failure when it knows the id but reading the status
  fails; only then is the status 500. For an instance whose status can be read it
  answers with status 200 and the instance id, status, output and error.
\<close>

theorem workflow_status_answers:
  "(fst (workflow_status b i) = 500 \<longleftrightarrow> b i = None \<or> b i = Some None)
   \<and> (b i = None \<or> b i = Some None \<longrightarrow>
        workflow_status b i = (500, Failure ''Failed to get workflow status''))
   \<and> (\<forall>st. b i = Some (Some st) \<longrightarrow>
        workflow_status b i =
          (200, StatusOf i (instance_status st) (instance_output st) (instance_error st)))"
  by (auto simp: workflow_status_def split: option.splits)

theorem workflow_status_answers_witness:
  "one_instance ''W0'' = None
   \<and> workflow_status one_instance ''W0'' = (500, Failure ''Failed to get workflow status'')
   \<and> one_instance ''W1'' =
       Some (Some \<lparr>instance_status = ''complete'', instance_output = Some ''Briefing complete'',
                    instance_error = None\<rparr>)
   \<and> workflow_status one_instance ''W1'' =
       (200, StatusOf ''W1'' ''complete'' (Some ''Briefing complete'') None)"
proof -
  have unknown: "one_instance ''W0'' = None"
    by (simp add: one_instance_def)
  have known: "one_instance ''W1'' =
       Some (Some \<lparr>instance_status = ''complete'', instance_output = Some ''Briefing complete'',
                    instance_error = None\<rparr>)"
    by (simp add: one_instance_def)
  show ?thesis
    using workflow_status_answers [of one_instance "''W0''"]
      workflow_status_answers [of one_instance "''W1''"] unknown known
    by simp
qed

text \<open>
  Claim C9 as stated fails. The answer for the unknown id \<open>W0\<close> is the generic failure
  with status 500, which names no missing instance; and for the known id \<open>W1\<close>, whose
  status cannot be read, the route does not return status, output and error but the
  very same failure.
\<close>

theorem workflow_status_counterexample:
  "workflow_status unreadable_instance ''W0'' = (500, Failure ''Failed to get workflow status'')
   \<and> unreadable_instance ''W1'' \<noteq> None
   \<and> workflow_status unreadable_instance ''W1'' = workflow_status unreadable_instance ''W0''"
  by (simp add: workflow_status_def unreadable_instance_def)

section \<open>Amounts of zero in the profile summary\<close>

text \<open>
  Claim C10. In the summary of the profile an amount of 0 is rendered as \<open>Not set\<close>, as
  an absent amount is: for each of the four amounts, the summary of a profile holding 0
  is the summary of the same profile without the field, and so is the whole system
  instruction whenever the profile holds \<open>lastUpdated\<close> (as every saved profile does).
\<close>

theorem zero_amount_rendered_not_set:
  "amount (Some 0) = ''Not set''
   \<and> amount None = ''Not set''
   \<and> profile_summary (p\<lparr>monthlyIncome := Some 0\<rparr>) = profile_summary (p\<lparr>monthlyIncome := None\<rparr>)
   \<and> profile_summary (p\<lparr>totalDebt := Some 0\<rparr>) = profile_summary (p\<lparr>totalDebt := None\<rparr>)
   \<and> profile_summary (p\<lparr>savingsGoal := Some 0\<rparr>) = profile_summary (p\<lparr>savingsGoal := None\<rparr>)
   \<and> profile_summary (p\<lparr>emergencyFund := Some 0\<rparr>) = profile_summary (p\<lparr>emergencyFund := None\<rparr>)
   \<and> contextualSystemPrompt (p\<lparr>monthlyIncome := Some 0, lastUpdated := Some u\<rparr>) =
       contextualSystemPrompt (p\<lparr>monthlyIncome := None, lastUpdated := Some u\<rparr>)
   \<and> contextualSystemPrompt (p\<lparr>totalDebt := Some 0, lastUpdated := Some u\<rparr>) =
       contextualSystemPrompt (p\<lparr>totalDebt := None, lastUpdated := Some u\<rparr>)
   \<and> profile_summary (empty_profile\<lparr>monthlyIncome := Some 0, totalDebt := Some 0\<rparr>) =
       ''\<newline>\<newline>User'' @ [CHR 0x27] @ ''s Financial Profile:'' @
       ''\<newline>- Monthly Income: Not set\<newline>- Total Debt: Not set\<newline>- Savings Goal: Not set'' @
       ''\<newline>- Emergency Fund: Not set\<newline>- Financial Goals: Not set''"
  by (simp add: amount_def goals_def profile_summary_def contextualSystemPrompt_def keys_length_def
        empty_profile_def)

end
